theory Spec2Isabelle
  imports Complex_Main "HOL-Library.Word"
begin

section \<open>Data model\<close>

text \<open>
  A decoded image is a numpy array of shape (H, W, 3) with 8-bit unsigned entries.
  It is modelled as a list of H rows, each a list of W pixels, each pixel a triple of
  8-bit words in the channel order of the array (blue, green, red for a device-colour
  raster; L, A, B for a perceptual raster). A single channel (a plane) is a list of rows
  of scalars.
\<close>

type_synonym u8 = "8 word"
type_synonym pixel = "u8 \<times> u8 \<times> u8"
type_synonym raster = "pixel list list"
type_synonym 'a plane = "'a list list"

text \<open>
  A numpy array is rectangular. \<open>valid_raster H W\<close> says that a nested list is an
  H by W array with nonzero height and width.
\<close>

definition valid_raster :: "nat \<Rightarrow> nat \<Rightarrow> 'a list list \<Rightarrow> bool" where
  "valid_raster H W img \<longleftrightarrow>
     0 < H \<and> 0 < W \<and> length img = H \<and> list_all (\<lambda>row. length row = W) img"

text \<open>The shape of a nested list: the widths of its rows.\<close>

definition shape :: "'a list list \<Rightarrow> nat list" where
  "shape p = map length p"

subsection \<open>numpy float64 values\<close>

text \<open>
  A float64 is a finite value, an infinity or NaN. Finite values are idealised as exact
  reals (no rounding error of the binary format); the special values follow IEEE 754 as
  numpy implements it, with zero taken as positive zero.
\<close>

datatype fl = Fin real | PInf | NInf | NaN

fun fl_neg :: "fl \<Rightarrow> fl" where
  "fl_neg (Fin a) = Fin (- a)"
| "fl_neg PInf = NInf"
| "fl_neg NInf = PInf"
| "fl_neg NaN = NaN"

fun fl_add :: "fl \<Rightarrow> fl \<Rightarrow> fl" where
  "fl_add (Fin a) (Fin b) = Fin (a + b)"
| "fl_add NaN y = NaN"
| "fl_add x NaN = NaN"
| "fl_add PInf NInf = NaN"
| "fl_add NInf PInf = NaN"
| "fl_add PInf y = PInf"
| "fl_add x PInf = PInf"
| "fl_add NInf y = NInf"
| "fl_add x NInf = NInf"

definition fl_sub :: "fl \<Rightarrow> fl \<Rightarrow> fl" where
  "fl_sub x y = fl_add x (fl_neg y)"

text \<open>The sign of an infinite product or quotient: positive iff both signs agree.\<close>

definition signed_inf :: "bool \<Rightarrow> fl" where
  "signed_inf positive = (if positive then PInf else NInf)"

fun fl_mul :: "fl \<Rightarrow> fl \<Rightarrow> fl" where
  "fl_mul (Fin a) (Fin b) = Fin (a * b)"
| "fl_mul NaN y = NaN"
| "fl_mul x NaN = NaN"
| "fl_mul PInf (Fin b) = (if b = 0 then NaN else signed_inf (0 < b))"
| "fl_mul NInf (Fin b) = (if b = 0 then NaN else signed_inf (b < 0))"
| "fl_mul (Fin a) PInf = (if a = 0 then NaN else signed_inf (0 < a))"
| "fl_mul (Fin a) NInf = (if a = 0 then NaN else signed_inf (a < 0))"
| "fl_mul PInf PInf = PInf"
| "fl_mul NInf NInf = PInf"
| "fl_mul PInf NInf = NInf"
| "fl_mul NInf PInf = NInf"

text \<open>
  Division of numpy floats never raises: a nonzero value over zero is an infinity
  (with the warning "divide by zero encountered"), zero over zero is NaN (with the
  warning "invalid value encountered").
\<close>

fun fl_div :: "fl \<Rightarrow> fl \<Rightarrow> fl" where
  "fl_div (Fin a) (Fin b) =
     (if b \<noteq> 0 then Fin (a / b) else if a = 0 then NaN else signed_inf (0 < a))"
| "fl_div NaN y = NaN"
| "fl_div x NaN = NaN"
| "fl_div (Fin a) PInf = Fin 0"
| "fl_div (Fin a) NInf = Fin 0"
| "fl_div PInf (Fin b) = signed_inf (0 \<le> b)"
| "fl_div NInf (Fin b) = signed_inf (b < 0)"
| "fl_div PInf PInf = NaN"
| "fl_div PInf NInf = NaN"
| "fl_div NInf PInf = NaN"
| "fl_div NInf NInf = NaN"

text \<open>The comparison \<open>x < y\<close> of floats: false as soon as one side is NaN.\<close>

fun fl_less :: "fl \<Rightarrow> fl \<Rightarrow> bool" where
  "fl_less (Fin a) (Fin b) = (a < b)"
| "fl_less NaN y = False"
| "fl_less x NaN = False"
| "fl_less x NInf = False"
| "fl_less PInf y = False"
| "fl_less NInf y = True"
| "fl_less x PInf = True"

text \<open>
  Python's builtin \<open>min(a, b)\<close> keeps its first argument unless the second is smaller,
  so a NaN in first position survives.
\<close>

definition py_min :: "fl \<Rightarrow> fl \<Rightarrow> fl" where
  "py_min a b = (if fl_less b a then b else a)"

text \<open>\<open>np.clip(x, lo, hi)\<close> on one element: NaN stays NaN.\<close>

fun clip :: "real \<Rightarrow> real \<Rightarrow> fl \<Rightarrow> fl" where
  "clip lo hi (Fin a) = Fin (max lo (min hi a))"
| "clip lo hi PInf = Fin hi"
| "clip lo hi NInf = Fin lo"
| "clip lo hi NaN = NaN"

text \<open>
  The conversion of a float to uint8 (\<open>astype(np.uint8)\<close>, and the implicit cast of
  an assignment into a uint8 array) is the C cast: the value is truncated toward zero,
  and a truncated value outside 0..255 keeps its low eight bits (what numpy does on the
  usual x86-64 builds); a non-finite value gives 0.
\<close>

definition trunc_toward_zero :: "real \<Rightarrow> int" where
  "trunc_toward_zero x = (if 0 \<le> x then \<lfloor>x\<rfloor> else \<lceil>x\<rceil>)"

fun to_uint8 :: "fl \<Rightarrow> u8" where
  "to_uint8 (Fin a) = word_of_int (trunc_toward_zero a)"
| "to_uint8 PInf = 0"
| "to_uint8 NInf = 0"
| "to_uint8 NaN = 0"

definition to_float :: "u8 \<Rightarrow> fl" where
  "to_float x = Fin (real (unat x))"

subsection \<open>Array operations\<close>

text \<open>Elementwise operations of numpy: array with scalar, scalar with array, array with array.\<close>

definition astype_float :: "u8 plane \<Rightarrow> fl plane" where
  "astype_float p = map (map to_float) p"

definition astype_uint8 :: "fl plane \<Rightarrow> u8 plane" where
  "astype_uint8 p = map (map to_uint8) p"

definition arr_scalar :: "(fl \<Rightarrow> fl \<Rightarrow> fl) \<Rightarrow> fl plane \<Rightarrow> fl \<Rightarrow> fl plane" where
  "arr_scalar f p c = map (map (\<lambda>x. f x c)) p"

definition scalar_arr :: "(fl \<Rightarrow> fl \<Rightarrow> fl) \<Rightarrow> fl \<Rightarrow> fl plane \<Rightarrow> fl plane" where
  "scalar_arr f c p = map (map (\<lambda>x. f c x)) p"

definition arr_arr :: "(fl \<Rightarrow> fl \<Rightarrow> fl) \<Rightarrow> fl plane \<Rightarrow> fl plane \<Rightarrow> fl plane" where
  "arr_arr f p q = map2 (map2 f) p q"

definition np_clip :: "fl plane \<Rightarrow> real \<Rightarrow> real \<Rightarrow> fl plane" where
  "np_clip p lo hi = map (map (clip lo hi)) p"

text \<open>
  \<open>np.mean\<close> and \<open>np.average\<close> of a uint8 plane: the sum of all entries over their
  number, NaN for an array with no entry.
\<close>

definition np_mean :: "u8 plane \<Rightarrow> fl" where
  "np_mean p =
     (let xs = concat p
      in if xs = [] then NaN else Fin (real (sum_list (map unat xs)) / real (length xs)))"

subsection \<open>Channel planes (cv2.split and cv2.merge)\<close>

text \<open>
  The errors a run can end with: \<open>SizeMismatch\<close> is the error of \<open>cv2.merge\<close>
  and \<open>np.hstack\<close> on arrays of different sizes, \<open>ValueError\<close> the one of
  \<open>np.min\<close> and \<open>np.max\<close> on an array with no entry. \<open>InvalidImage\<close> is the
  error the specification names for an undecodable input; no statement of the program
  raises it.
\<close>

datatype error = InvalidImage | SizeMismatch | ValueError

definition channel0 :: "raster \<Rightarrow> u8 plane" where
  "channel0 img = map (map (\<lambda>(c0, c1, c2). c0)) img"

definition channel1 :: "raster \<Rightarrow> u8 plane" where
  "channel1 img = map (map (\<lambda>(c0, c1, c2). c1)) img"

definition channel2 :: "raster \<Rightarrow> u8 plane" where
  "channel2 img = map (map (\<lambda>(c0, c1, c2). c2)) img"

definition cv_split :: "raster \<Rightarrow> u8 plane \<times> u8 plane \<times> u8 plane" where
  "cv_split img = (channel0 img, channel1 img, channel2 img)"

text \<open>\<open>cv2.merge\<close> raises an error unless its planes have the same size.\<close>

definition cv_merge :: "u8 plane \<Rightarrow> u8 plane \<Rightarrow> u8 plane \<Rightarrow> error + raster" where
  "cv_merge p0 p1 p2 =
     (if shape p0 = shape p1 \<and> shape p1 = shape p2
      then Inr (map2 (\<lambda>r0 (r1, r2). zip r0 (zip r1 r2)) p0 (zip p1 p2))
      else Inl SizeMismatch)"

section \<open>The enhancement pipeline (preprocess_underwater_image)\<close>

subsection \<open>Step 1: red channel compensation\<close>

definition red_channel_compensation :: "raster \<Rightarrow> error + raster" where
  "red_channel_compensation img =
     (let (b, g, r) = cv_split img;
          r_f = arr_scalar fl_div (astype_float r) (Fin 255);
          g_f = arr_scalar fl_div (astype_float g) (Fin 255);
          compensated_r =
            arr_arr fl_add r_f
              (arr_arr fl_mul
                 (arr_arr fl_mul (arr_arr fl_sub g_f r_f) (scalar_arr fl_sub (Fin 1) r_f))
                 g_f);
          r_new = astype_uint8 (np_clip (arr_scalar fl_mul compensated_r (Fin 255)) 0 255)
      in cv_merge b g r_new)"

text \<open>
  The compensation as the specification words it, for one pixel: normalise red and
  green, apply the formula, rescale, clamp to [0,255] and convert to an 8-bit value
  (rounding toward zero).
\<close>

definition spec_compensated_red :: "u8 \<Rightarrow> u8 \<Rightarrow> u8" where
  "spec_compensated_red R G =
     (let r = real (unat R) / 255;
          g = real (unat G) / 255;
          compensated = r + (g - r) * (1 - r) * g
      in word_of_int \<lfloor>max 0 (min 255 (compensated * 255))\<rfloor>)"

definition spec_compensate_pixel :: "pixel \<Rightarrow> pixel" where
  "spec_compensate_pixel p = (case p of (B, G, R) \<Rightarrow> (B, G, spec_compensated_red R G))"

subsection \<open>Step 2: colour conversion and chromatic cast correction\<close>

text \<open>
  \<open>cv2.cvtColor\<close> converts every pixel on its own and keeps the size of the array. The
  conversions themselves (device colour to LAB and back, device colour to gray) belong
  to the library and are parameters of the model.
\<close>

definition cvtColor :: "(pixel \<Rightarrow> 'a) \<Rightarrow> raster \<Rightarrow> 'a list list" where
  "cvtColor conv img = map (map conv) img"

text \<open>
  The assignments \<open>result[:, :, 1] = ...\<close> and \<open>result[:, :, 2] = ...\<close> store a plane
  into one channel of the uint8 array; the float plane on the right is cast to uint8 by
  the assignment.
\<close>

definition set_channel1 :: "raster \<Rightarrow> u8 plane \<Rightarrow> raster" where
  "set_channel1 img p = map2 (map2 (\<lambda>(c0, c1, c2) v. (c0, v, c2))) img p"

definition set_channel2 :: "raster \<Rightarrow> u8 plane \<Rightarrow> raster" where
  "set_channel2 img p = map2 (map2 (\<lambda>(c0, c1, c2) v. (c0, c1, v))) img p"

text \<open>
  What the two assignments store for one pixel with luminance \<open>l\<close> and chroma \<open>x\<close>,
  given the mean \<open>avg\<close> of the chroma plane: the shifted value, cast to uint8.
\<close>

definition shifted_chroma :: "fl \<Rightarrow> u8 \<Rightarrow> u8 \<Rightarrow> u8" where
  "shifted_chroma avg l x =
     to_uint8 (fl_sub (to_float x)
                 (fl_mul (fl_mul (fl_sub avg (Fin 128)) (fl_div (to_float l) (Fin 255))) (Fin 1.2)))"

definition chromatic_cast_correction :: "raster \<Rightarrow> raster" where
  "chromatic_cast_correction result =
     (let avg_a = np_mean (channel1 result);
          avg_b = np_mean (channel2 result);
          result1 = set_channel1 result
            (astype_uint8
               (arr_arr fl_sub (astype_float (channel1 result))
                  (arr_scalar fl_mul
                     (scalar_arr fl_mul (fl_sub avg_a (Fin 128))
                        (arr_scalar fl_div (astype_float (channel0 result)) (Fin 255)))
                     (Fin 1.2))));
          result2 = set_channel2 result1
            (astype_uint8
               (arr_arr fl_sub (astype_float (channel2 result1))
                  (arr_scalar fl_mul
                     (scalar_arr fl_mul (fl_sub avg_b (Fin 128))
                        (arr_scalar fl_div (astype_float (channel0 result1)) (Fin 255)))
                     (Fin 1.2))))
      in result2)"

subsection \<open>Step 3: contrast enhancement of the luminance plane\<close>

text \<open>
  \<open>clahe.apply\<close> is the library's tile-based histogram equalisation (clip limit 0.5,
  8 by 8 tiles); it is a parameter of the model.
\<close>

definition contrast_enhancement :: "(u8 plane \<Rightarrow> u8 plane) \<Rightarrow> raster \<Rightarrow> error + raster" where
  "contrast_enhancement clahe_apply result =
     (let (l, a, b_lab) = cv_split result;
          l' = clahe_apply l
      in cv_merge l' a b_lab)"

definition preprocess_underwater_image ::
  "(pixel \<Rightarrow> pixel) \<Rightarrow> (pixel \<Rightarrow> pixel) \<Rightarrow> (u8 plane \<Rightarrow> u8 plane) \<Rightarrow> raster \<Rightarrow> error + raster" where
  "preprocess_underwater_image bgr2lab lab2bgr clahe_apply img =
     (case red_channel_compensation img of
        Inl e \<Rightarrow> Inl e
      | Inr image_compensated \<Rightarrow>
          (let result = cvtColor bgr2lab image_compensated;
               result' = chromatic_cast_correction result
           in case contrast_enhancement clahe_apply result' of
                Inl e \<Rightarrow> Inl e
              | Inr final_lab \<Rightarrow> Inr (cvtColor lab2bgr final_lab)))"

section \<open>Gray-world white balance (apply_gray_world_white_balance)\<close>

text \<open>The channel means and the per-channel scales, as the routine computes them.\<close>

definition avg_gray_of :: "raster \<Rightarrow> fl" where
  "avg_gray_of img =
     (let avg_b = np_mean (channel0 img);
          avg_g = np_mean (channel1 img);
          avg_r = np_mean (channel2 img)
      in fl_div (fl_add (fl_add avg_b avg_g) avg_r) (Fin 3))"

definition gray_world_scales :: "raster \<Rightarrow> fl \<times> fl \<times> fl" where
  "gray_world_scales img =
     (let avg_b = np_mean (channel0 img);
          avg_g = np_mean (channel1 img);
          avg_r = np_mean (channel2 img);
          avg_gray = avg_gray_of img;
          scale_b = py_min (fl_div avg_gray avg_b) (Fin 4);
          scale_g = py_min (fl_div avg_gray avg_g) (Fin 4);
          scale_r = py_min (fl_div avg_gray avg_r) (Fin 4)
      in (scale_b, scale_g, scale_r))"

section \<open>Reporting and the entry point\<close>

subsection \<open>Effects\<close>

text \<open>
  What a run does to the outside, in order: the lines it prints (formatted numbers are
  kept as values), the call of the enhancement pipeline, and the calls that write or
  show images.
\<close>

datatype event =
    Print string
  | PrintImageSize nat nat
  | PrintMean fl
  | PrintStd fl
  | PrintMinMax u8 u8
  | PrintContrast fl
  | RunPreprocess raster
  | MakeDirs string
  | ImWrite string raster
  | ImShow string raster
  | WaitKey
  | DestroyAllWindows

subsection \<open>get_image_statistics\<close>

definition np_std :: "u8 plane \<Rightarrow> fl" where
  "np_std p =
     (let xs = map (\<lambda>x. real (unat x)) (concat p);
          n = real (length xs)
      in if xs = [] then NaN
         else (let m = sum_list xs / n
               in Fin (sqrt (sum_list (map (\<lambda>x. (x - m)\<^sup>2) xs) / n))))"

definition np_min :: "u8 plane \<Rightarrow> error + u8" where
  "np_min p = (case concat p of [] \<Rightarrow> Inl ValueError | x # xs \<Rightarrow> Inr (fold min xs x))"

definition np_max :: "u8 plane \<Rightarrow> error + u8" where
  "np_max p = (case concat p of [] \<Rightarrow> Inl ValueError | x # xs \<Rightarrow> Inr (fold max xs x))"

definition get_image_statistics ::
  "(pixel \<Rightarrow> u8) \<Rightarrow> raster \<Rightarrow> string \<Rightarrow> (error + unit) \<times> event list" where
  "get_image_statistics bgr2gray img name =
     (let gray = cvtColor bgr2gray img;
          printed = [Print (CHR 0x0A # name @ '' Statistics:''),
                     PrintMean (np_mean gray),
                     PrintStd (np_std gray)]
      in case np_min gray of
           Inl e \<Rightarrow> (Inl e, printed)
         | Inr lo \<Rightarrow>
            (case np_max gray of
               Inl e \<Rightarrow> (Inl e, printed)
             | Inr hi \<Rightarrow>
                (Inr (), printed @ [PrintMinMax lo hi,
                                    PrintContrast (fl_div (np_std gray) (np_mean gray))])))"

subsection \<open>visualize_preprocessing_comparison\<close>

definition width :: "'a list list \<Rightarrow> nat" where
  "width img = (case img of [] \<Rightarrow> 0 | row # rows \<Rightarrow> length row)"

definition np_hstack :: "raster \<Rightarrow> raster \<Rightarrow> error + raster" where
  "np_hstack p q = (if length p = length q then Inr (map2 (@) p q) else Inl SizeMismatch)"

definition visualize_preprocessing_comparison ::
  "(raster \<Rightarrow> string \<Rightarrow> nat \<times> nat \<Rightarrow> raster) \<Rightarrow> raster \<Rightarrow> raster \<Rightarrow> error + raster" where
  "visualize_preprocessing_comparison put_text original enhanced =
     (let w = width original
      in case np_hstack original enhanced of
           Inl e \<Rightarrow> Inl e
         | Inr comparison \<Rightarrow>
             Inr (put_text (put_text comparison ''Original'' (10, 30))
                    ''Enhanced (CLAHE)'' (w + 10, 30)))"

subsection \<open>process_image\<close>

text \<open>
  The collaborators of the entry point: the decoder (\<open>cv2.imread\<close> gives no raster for
  a file it cannot decode), the library's conversions and contrast enhancer, text
  drawing and the path functions.
\<close>

record externals =
  imread :: "string \<Rightarrow> raster option"
  ext_bgr2lab :: "pixel \<Rightarrow> pixel"
  ext_lab2bgr :: "pixel \<Rightarrow> pixel"
  ext_bgr2gray :: "pixel \<Rightarrow> u8"
  ext_clahe_apply :: "u8 plane \<Rightarrow> u8 plane"
  ext_put_text :: "raster \<Rightarrow> string \<Rightarrow> nat \<times> nat \<Rightarrow> raster"
  base_name :: "string \<Rightarrow> string"
  path_join :: "string \<Rightarrow> string \<Rightarrow> string"

definition check_mark :: string where
  "check_mark = [CHR 0xE2, CHR 0x9C, CHR 0x93]"

text \<open>The two branches of \<open>if save_output:\<close> at the end of \<open>process_image\<close>.\<close>

definition save_or_show ::
  "externals \<Rightarrow> string \<Rightarrow> bool \<Rightarrow> string \<Rightarrow> raster \<Rightarrow> raster \<Rightarrow> (error + unit) \<times> event list" where
  "save_or_show ext image_path save_output output_dir original enhanced =
     (if save_output then
        (let name = base_name ext image_path
         in case visualize_preprocessing_comparison (ext_put_text ext) original enhanced of
              Inl e \<Rightarrow> (Inl e, [MakeDirs output_dir])
            | Inr comparison \<Rightarrow>
               (let comparison_path = path_join ext output_dir (name @ ''_comparison.jpg'');
                    original_path = path_join ext output_dir (name @ ''_original.jpg'');
                    enhanced_path = path_join ext output_dir (name @ ''_enhanced.jpg'')
                in (Inr (),
                    [MakeDirs output_dir,
                     ImWrite comparison_path comparison,
                     Print (CHR 0x0A # check_mark @ '' Saved comparison: '' @ comparison_path),
                     ImWrite original_path original,
                     ImWrite enhanced_path enhanced,
                     Print (check_mark @ '' Saved original: '' @ original_path),
                     Print (check_mark @ '' Saved enhanced: '' @ enhanced_path),
                     Print (CHR 0x0A # check_mark @ '' Processing complete! All images saved to ''
                              @ [CHR 0x27] @ output_dir @ ''/'' @ [CHR 0x27] @ '' directory'')])))
      else
        (case visualize_preprocessing_comparison (ext_put_text ext) original enhanced of
           Inl e \<Rightarrow> (Inl e, [])
         | Inr comparison \<Rightarrow>
            (Inr (),
             [ImShow ''Underwater Image Enhancement (CLAHE)'' comparison,
              Print (CHR 0x0A # check_mark @ '' Processing complete! Press any key to close window...''),
              WaitKey,
              DestroyAllWindows])))"

text \<open>
  The result of a run is how it ends (\<open>Inr ()\<close> for a normal return, \<open>Inl e\<close> for an
  error that reaches the caller) with the effects up to that point.
\<close>

definition process_image ::
  "externals \<Rightarrow> string \<Rightarrow> bool \<Rightarrow> string \<Rightarrow> (error + unit) \<times> event list" where
  "process_image ext image_path save_output output_dir =
     (let ev0 = [Print (CHR 0x0A # ''Processing: '' @ image_path)]
      in case imread ext image_path of
           None \<Rightarrow> (Inr (), ev0 @ [Print (''Error: Could not load image from '' @ image_path)])
         | Some original \<Rightarrow>
            (let ev1 = ev0 @ [PrintImageSize (width original) (length original)];
                 (r1, s1) = get_image_statistics (ext_bgr2gray ext) original ''Original''
             in case r1 of
                  Inl e \<Rightarrow> (Inl e, ev1 @ s1)
                | Inr u1 \<Rightarrow>
                   (let ev2 = ev1 @ s1 @ [RunPreprocess original]
                    in case preprocess_underwater_image (ext_bgr2lab ext) (ext_lab2bgr ext)
                              (ext_clahe_apply ext) original of
                         Inl e \<Rightarrow> (Inl e, ev2)
                       | Inr enhanced \<Rightarrow>
                          (let (r2, s2) = get_image_statistics (ext_bgr2gray ext) enhanced ''Enhanced''
                           in case r2 of
                                Inl e \<Rightarrow> (Inl e, ev2 @ s2)
                              | Inr u2 \<Rightarrow>
                                 (let (r3, s3) = save_or_show ext image_path save_output
                                                   output_dir original enhanced
                                  in (r3, ev2 @ s2 @ s3))))))"

text \<open>Whether a run called the enhancement pipeline.\<close>

definition core_invoked :: "event list \<Rightarrow> bool" where
  "core_invoked evs = list_ex (\<lambda>e. case e of RunPreprocess x \<Rightarrow> True | _ \<Rightarrow> False) evs"

text \<open>A file system with no decodable image, and library stand-ins for concrete runs.\<close>

definition no_image_externals :: externals where
  "no_image_externals =
     \<lparr>imread = (\<lambda>p. None), ext_bgr2lab = (\<lambda>p. p), ext_lab2bgr = (\<lambda>p. p),
      ext_bgr2gray = (\<lambda>(b, g, r). g), ext_clahe_apply = (\<lambda>p. p),
      ext_put_text = (\<lambda>img s pos. img), base_name = (\<lambda>p. p),
      path_join = (\<lambda>d f. d @ ''/'' @ f)\<rparr>"

section \<open>Properties\<close>

subsection \<open>Elementwise operations on planes of one raster\<close>

lemma map2_of_maps:
  "map2 f (map g xs) (map h xs) = map (\<lambda>x. f (g x) (h x)) xs"
  by (induction xs) simp_all

lemma zip3_of_maps:
  "map2 (\<lambda>r0 (r1, r2). f r0 r1 r2) (map g0 xs) (zip (map g1 xs) (map g2 xs))
     = map (\<lambda>x. f (g0 x) (g1 x) (g2 x)) xs"
  by (induction xs) simp_all

lemma zip_zip_of_maps:
  "zip (map f xs) (zip (map g xs) (map h xs)) = map (\<lambda>x. (f x, g x, h x)) xs"
  by (induction xs) simp_all

lemma map2_with_map:
  "map2 f xs (map h xs) = map (\<lambda>x. f x (h x)) xs"
  by (induction xs) simp_all

lemma shape_channels:
  "shape (channel0 img) = shape img"
  "shape (channel1 img) = shape img"
  "shape (channel2 img) = shape img"
  by (simp_all add: shape_def channel0_def channel1_def channel2_def)

subsection \<open>Red channel compensation\<close>

lemma trunc_nonneg: "0 \<le> x \<Longrightarrow> trunc_toward_zero x = \<lfloor>x\<rfloor>"
  by (simp add: trunc_toward_zero_def)

lemma compensate_value:
  "to_uint8 (clip 0 255 (fl_mul (fl_add (fl_div (to_float R) (Fin 255))
       (fl_mul (fl_mul (fl_sub (fl_div (to_float G) (Fin 255)) (fl_div (to_float R) (Fin 255)))
                       (fl_sub (Fin 1) (fl_div (to_float R) (Fin 255))))
               (fl_div (to_float G) (Fin 255)))) (Fin 255)))
   = spec_compensated_red R G"
  by (simp add: to_float_def fl_sub_def spec_compensated_red_def Let_def trunc_nonneg)

lemma red_channel_compensation_eq:
  "red_channel_compensation img = Inr (map (map spec_compensate_pixel) img)"
  unfolding red_channel_compensation_def cv_split_def Let_def prod.case cv_merge_def
  by (simp add: shape_def astype_uint8_def np_clip_def arr_scalar_def arr_arr_def
      scalar_arr_def astype_float_def channel0_def channel1_def channel2_def
      map2_of_maps zip3_of_maps o_def compensate_value spec_compensate_pixel_def
      split_beta zip_zip_of_maps)

lemma unat_le_255: "unat (x :: u8) \<le> 255"
  using unsigned_less [of x, where ?'a = nat] by simp

lemma unat_word_of_floor:
  assumes "0 \<le> v" "v \<le> 255"
  shows "unat (word_of_int \<lfloor>v\<rfloor> :: u8) = nat \<lfloor>v\<rfloor>"
proof -
  have "0 \<le> \<lfloor>v\<rfloor>" "\<lfloor>v\<rfloor> \<le> 255" using assms by (simp_all add: floor_le_iff)
  then have "\<lfloor>v\<rfloor> mod 256 = \<lfloor>v\<rfloor>" by simp
  then show ?thesis by (simp add: unat_eq_nat_uint uint_word_of_int)
qed

lemma spec_compensated_red_eq:
  fixes R G :: u8
  defines "c \<equiv> (real (unat G) / 255 - real (unat R) / 255) * (1 - real (unat R) / 255)
                    * (real (unat G) / 255)"
  defines "v \<equiv> max 0 (min 255 (real (unat R) + c * 255))"
  shows "unat (spec_compensated_red R G) = nat \<lfloor>v\<rfloor>"
proof -
  have "0 \<le> v" "v \<le> 255" by (simp_all add: v_def)
  then have "unat (word_of_int \<lfloor>v\<rfloor> :: u8) = nat \<lfloor>v\<rfloor>" by (rule unat_word_of_floor)
  moreover have "spec_compensated_red R G = word_of_int \<lfloor>v\<rfloor>"
    by (simp add: spec_compensated_red_def Let_def v_def c_def distrib_right del: of_nat_unat)
  ultimately show ?thesis by simp
qed

lemma spec_compensated_red_increase:
  assumes "R \<le> G"
  shows "R \<le> spec_compensated_red R G"
proof -
  define r where "r = real (unat R) / 255"
  define g where "g = real (unat G) / 255"
  define c where "c = (g - r) * (1 - r) * g"
  define v where "v = max 0 (min 255 (real (unat R) + c * 255))"
  have R255: "real (unat R) \<le> 255"
    using unat_le_255 [of R] by (simp del: of_nat_unat)
  have RG: "real (unat R) \<le> real (unat G)"
    using assms by (simp add: word_le_nat_alt del: of_nat_unat)
  have rg: "0 \<le> g - r" "0 \<le> 1 - r" "0 \<le> g"
    using R255 RG by (simp_all add: r_def g_def divide_right_mono del: of_nat_unat)
  have "0 \<le> c" unfolding c_def using rg by (intro mult_nonneg_nonneg)
  then have "real (unat R) \<le> v" using R255 unfolding v_def by simp
  then have "int (unat R) \<le> \<lfloor>v\<rfloor>" by (simp add: le_floor_iff del: of_nat_unat)
  then have "unat R \<le> nat \<lfloor>v\<rfloor>" by linarith
  moreover have "unat (spec_compensated_red R G) = nat \<lfloor>v\<rfloor>"
    unfolding v_def c_def r_def g_def by (rule spec_compensated_red_eq)
  ultimately show ?thesis by (simp add: word_le_nat_alt)
qed

lemma spec_compensated_red_decrease:
  assumes "G < R"
  shows "spec_compensated_red R G \<le> R"
proof -
  define r where "r = real (unat R) / 255"
  define g where "g = real (unat G) / 255"
  define c where "c = (g - r) * (1 - r) * g"
  define v where "v = max 0 (min 255 (real (unat R) + c * 255))"
  have R255: "real (unat R) \<le> 255"
    using unat_le_255 [of R] by (simp del: of_nat_unat)
  have RG: "real (unat G) \<le> real (unat R)"
    using assms by (simp add: word_less_nat_alt del: of_nat_unat)
  have rg: "g - r \<le> 0" "0 \<le> 1 - r" "0 \<le> g"
    using R255 RG by (simp_all add: r_def g_def divide_right_mono del: of_nat_unat)
  have "(g - r) * ((1 - r) * g) \<le> 0"
    using rg by (intro mult_nonpos_nonneg mult_nonneg_nonneg)
  then have "c \<le> 0" by (simp add: c_def mult.assoc)
  then have "v \<le> real (unat R)" unfolding v_def by (simp del: of_nat_unat)
  then have "\<lfloor>v\<rfloor> \<le> int (unat R)" by (simp add: floor_le_iff del: of_nat_unat)
  then have "nat \<lfloor>v\<rfloor> \<le> unat R" by linarith
  moreover have "unat (spec_compensated_red R G) = nat \<lfloor>v\<rfloor>"
    unfolding v_def c_def r_def g_def by (rule spec_compensated_red_eq)
  ultimately show ?thesis by (simp add: word_le_nat_alt)
qed

text \<open>
  C1. For every raster, the red channel compensation returns the raster in which each
  pixel keeps its blue and green values and has for red the value of the formula:
  with r = R/255 and g = G/255, compensated = r + (g - r) * (1 - r) * g, rescaled by 255,
  clamped to [0,255] and converted to an 8-bit value (the conversion rounds toward zero).
\<close>

theorem red_compensation_formula:
  "red_channel_compensation img
     = Inr (map (map (\<lambda>(B, G, R). (B, G, spec_compensated_red R G))) img)"
proof -
  have "spec_compensate_pixel = (\<lambda>(B, G, R). (B, G, spec_compensated_red R G))"
    by (simp add: fun_eq_iff spec_compensate_pixel_def)
  then show ?thesis by (simp add: red_channel_compensation_eq)
qed

text \<open>
  C5. At every pixel position of the input, the compensated raster holds a red value
  that is at least the original red where green is at least red, and at most the
  original red where green is below red; the values compared are the stored 8-bit
  ones, after the clamp and the conversion.
\<close>

theorem red_compensation_monotone:
  "\<exists>out. red_channel_compensation img = Inr out \<and> shape out = shape img \<and>
     (\<forall>i j. i < length img \<longrightarrow> j < length (img ! i) \<longrightarrow>
        (case (img ! i ! j, out ! i ! j) of
           ((B, G, R), (B', G', R')) \<Rightarrow> (R \<le> G \<longrightarrow> R \<le> R') \<and> (G < R \<longrightarrow> R' \<le> R)))"
proof -
  let ?out = "map (map spec_compensate_pixel) img"
  have "red_channel_compensation img = Inr ?out" by (rule red_channel_compensation_eq)
  moreover have "shape ?out = shape img" by (simp add: shape_def)
  moreover have "case (img ! i ! j, ?out ! i ! j) of
           ((B, G, R), (B', G', R')) \<Rightarrow> (R \<le> G \<longrightarrow> R \<le> R') \<and> (G < R \<longrightarrow> R' \<le> R)"
    if "i < length img" "j < length (img ! i)" for i j
  proof -
    obtain B G R where p: "img ! i ! j = (B, G, R)" by (cases "img ! i ! j") auto
    have "?out ! i ! j = spec_compensate_pixel (img ! i ! j)" using that by simp
    then show ?thesis
      using spec_compensated_red_increase [of R G] spec_compensated_red_decrease [of G R]
      by (simp add: p spec_compensate_pixel_def)
  qed
  ultimately show ?thesis by blast
qed

theorem red_compensation_monotone_witness:
  "\<exists>out. red_channel_compensation [[(200, 50, 10), (0, 10, 50)]] = Inr out \<and>
     (case out ! 0 ! 0 of (B', G', R') \<Rightarrow> (10 :: u8) \<le> 50 \<and> 10 \<le> R') \<and>
     (case out ! 0 ! 1 of (B', G', R') \<Rightarrow> (10 :: u8) < 50 \<and> R' \<le> 50)"
proof -
  let ?img = "[[(200, 50, 10), (0, 10, 50)]] :: raster"
  obtain out where out: "red_channel_compensation ?img = Inr out"
    and mono: "\<And>i j. i < length ?img \<Longrightarrow> j < length (?img ! i) \<Longrightarrow>
        (case (?img ! i ! j, out ! i ! j) of
           ((B, G, R), (B', G', R')) \<Rightarrow> (R \<le> G \<longrightarrow> R \<le> R') \<and> (G < R \<longrightarrow> R' \<le> R))"
    using red_compensation_monotone [of ?img] by blast
  have a: "case out ! 0 ! 0 of (B', G', R') \<Rightarrow> (10 :: u8) \<le> 50 \<and> 10 \<le> R'"
    using mono [of 0 0] by (simp split: prod.splits)
  have b: "case out ! 0 ! 1 of (B', G', R') \<Rightarrow> (10 :: u8) < 50 \<and> R' \<le> 50"
    using mono [of 0 1] by (simp split: prod.splits)
  show ?thesis
    by (rule exI [of _ out], intro conjI) (rule out, rule a, rule b)
qed

subsection \<open>Chromatic cast correction\<close>

lemma to_uint8_to_float: "to_uint8 (to_float x) = x"
proof -
  have "trunc_toward_zero (real (unat x)) = int (unat x)"
    by (simp add: trunc_toward_zero_def del: of_nat_unat)
  then have "to_uint8 (Fin (real (unat x))) = word_of_int (int (unat x))"
    by (simp del: of_nat_unat)
  then show ?thesis by (simp add: to_float_def)
qed

lemma set_channel1_eq:
  "set_channel1 img (astype_uint8 (arr_arr fl_sub (astype_float (channel1 img))
                  (arr_scalar fl_mul
                     (scalar_arr fl_mul (fl_sub avg (Fin 128))
                        (arr_scalar fl_div (astype_float (channel0 img)) (Fin 255)))
                     (Fin 1.2))))
   = map (map (\<lambda>(l, a, b). (l, shifted_chroma avg l a, b))) img"
  by (simp add: set_channel1_def astype_uint8_def arr_arr_def arr_scalar_def scalar_arr_def
      astype_float_def channel0_def channel1_def map2_of_maps map2_with_map o_def
      shifted_chroma_def split_beta)

lemma set_channel2_eq:
  "set_channel2 img (astype_uint8 (arr_arr fl_sub (astype_float (channel2 img))
                  (arr_scalar fl_mul
                     (scalar_arr fl_mul (fl_sub avg (Fin 128))
                        (arr_scalar fl_div (astype_float (channel0 img)) (Fin 255)))
                     (Fin 1.2))))
   = map (map (\<lambda>(l, a, b). (l, a, shifted_chroma avg l b))) img"
  by (simp add: set_channel2_def astype_uint8_def arr_arr_def arr_scalar_def scalar_arr_def
      astype_float_def channel0_def channel2_def map2_of_maps map2_with_map o_def
      shifted_chroma_def split_beta)

lemma chromatic_cast_correction_eq:
  "chromatic_cast_correction result
     = map (map (\<lambda>(l, a, b). (l, shifted_chroma (np_mean (channel1 result)) l a,
                                  shifted_chroma (np_mean (channel2 result)) l b))) result"
  unfolding chromatic_cast_correction_def Let_def set_channel1_eq set_channel2_eq
  by (simp add: o_def split_beta)

lemma shifted_chroma_neutral: "shifted_chroma (Fin 128) l x = x"
proof -
  have "fl_sub (to_float x)
          (fl_mul (fl_mul (fl_sub (Fin 128) (Fin 128)) (fl_div (to_float l) (Fin 255))) (Fin 1.2))
        = to_float x"
    by (simp add: fl_sub_def to_float_def)
  then show ?thesis by (simp add: shifted_chroma_def to_uint8_to_float)
qed


text \<open>
  C6. For every perceptual raster whose A plane and B plane both have mean 128, the
  chromatic cast correction returns the raster unchanged.
\<close>

theorem cast_correction_neutral_noop:
  assumes "np_mean (channel1 result) = Fin 128" and "np_mean (channel2 result) = Fin 128"
  shows "chromatic_cast_correction result = result"
  unfolding chromatic_cast_correction_eq assms
  by (simp add: shifted_chroma_neutral split_beta map_idI)

theorem cast_correction_neutral_noop_witness:
  "np_mean (channel1 [[(10, 128, 128), (200, 120, 100), (50, 136, 156)]]) = Fin 128 \<and>
   np_mean (channel2 [[(10, 128, 128), (200, 120, 100), (50, 136, 156)]]) = Fin 128 \<and>
   chromatic_cast_correction [[(10, 128, 128), (200, 120, 100), (50, 136, 156)]]
     = [[(10, 128, 128), (200, 120, 100), (50, 136, 156)]]"
proof -
  let ?r = "[[(10, 128, 128), (200, 120, 100), (50, 136, 156)]] :: raster"
  have a: "np_mean (channel1 ?r) = Fin 128" by (simp add: np_mean_def channel1_def)
  have b: "np_mean (channel2 ?r) = Fin 128" by (simp add: np_mean_def channel2_def)
  show ?thesis using a b cast_correction_neutral_noop [OF a b] by simp
qed

text \<open>
  C2. The shift is computed as stated, but the result is not clamped: the program
  assigns the float plane to the uint8 channel, and the cast of the assignment keeps the
  low eight bits of a value outside [0,255]. In the 2 by 2 perceptual raster below (one
  bright yellow pixel among blue ones) the B plane has mean 70.5, so the first pixel's
  B value becomes 222 + 57.5 * (248/255) * 1.2 = 289.1..., stored as 289 - 256 = 33
  where a clamp would store 255.
\<close>

theorem cast_correction_wraps:
  "chromatic_cast_correction [[(248, 106, 222), (82, 207, 20)], [(82, 207, 20), (82, 207, 20)]]
     = [[(248, 43, 33), (82, 186, 42)], [(82, 186, 42), (82, 186, 42)]]"
proof -
  let ?r = "[[(248, 106, 222), (82, 207, 20)], [(82, 207, 20), (82, 207, 20)]] :: raster"
  have a: "np_mean (channel1 ?r) = Fin (727 / 4)" by (simp add: np_mean_def channel1_def)
  have b: "np_mean (channel2 ?r) = Fin (141 / 2)" by (simp add: np_mean_def channel2_def)
  show ?thesis
    unfolding chromatic_cast_correction_eq a b
    by (simp add: shifted_chroma_def fl_sub_def to_float_def trunc_toward_zero_def)
qed

subsection \<open>Dimensions\<close>

lemma valid_raster_shape:
  "valid_raster H W img \<longleftrightarrow> 0 < H \<and> 0 < W \<and> shape img = replicate H W"
proof -
  have "map length img = replicate H W" if "length img = H" "list_all (\<lambda>row. length row = W) img"
  proof -
    have "map length img = map (\<lambda>row. W) img"
      using that(2) by (simp add: list_all_iff)
    then show ?thesis using that(1) by (simp add: map_replicate_const)
  qed
  moreover have "length img = H \<and> list_all (\<lambda>row. length row = W) img"
    if eq: "map length img = replicate H W"
  proof
    show "length img = H" using arg_cong [OF eq, of length] by simp
    have "length row = W" if "row \<in> set img" for row
    proof -
      have "length row \<in> set (map length img)" using that by simp
      then show ?thesis unfolding eq by simp
    qed
    then show "list_all (\<lambda>row. length row = W) img" by (simp add: list_all_iff)
  qed
  ultimately show ?thesis unfolding valid_raster_def shape_def by blast
qed

lemma shape_map_map: "shape (map (map f) img) = shape img"
  by (simp add: shape_def)

lemma shape_merge_rows:
  "map length p0 = s \<Longrightarrow> map length p1 = s \<Longrightarrow> map length p2 = s \<Longrightarrow>
   map length (map2 (\<lambda>r0 (r1, r2). zip r0 (zip r1 r2)) p0 (zip p1 p2)) = s"
  by (induction s arbitrary: p0 p1 p2) (auto simp: map_eq_Cons_conv)

lemma cv_merge_shape:
  assumes "shape p0 = s" "shape p1 = s" "shape p2 = s"
  shows "\<exists>out. cv_merge p0 p1 p2 = Inr out \<and> shape out = s"
  using assms shape_merge_rows [of p0 s p1 p2] by (simp add: cv_merge_def shape_def)

lemma contrast_enhancement_shape:
  assumes "\<And>p. shape (clahe_apply p) = shape p"
  shows "\<exists>out. contrast_enhancement clahe_apply result = Inr out \<and> shape out = shape result"
  unfolding contrast_enhancement_def cv_split_def Let_def prod.case
  by (rule cv_merge_shape) (simp_all add: assms shape_channels)

text \<open>
  C7. For every valid input raster (H rows of W pixels, H and W nonzero; a pixel has
  three channels by its type), the pipeline returns a raster of the same height and
  width, and so does every stage on the way: the red channel compensation, the
  conversion to the perceptual space, the chromatic cast correction, the contrast
  enhancement with its merge, and the conversion back. The library's contrast enhancer
  is assumed to return a plane of the size of its input, as the library documents;
  the merge of its result with the chroma planes then cannot fail.
\<close>

theorem pipeline_preserves_dimensions:
  assumes valid: "valid_raster H W img"
    and clahe_ok: "\<And>p. shape (clahe_apply p) = shape p"
  shows "\<exists>image_compensated final_lab final.
           red_channel_compensation img = Inr image_compensated \<and>
           valid_raster H W image_compensated \<and>
           valid_raster H W (cvtColor bgr2lab image_compensated) \<and>
           valid_raster H W (chromatic_cast_correction (cvtColor bgr2lab image_compensated)) \<and>
           contrast_enhancement clahe_apply
             (chromatic_cast_correction (cvtColor bgr2lab image_compensated)) = Inr final_lab \<and>
           valid_raster H W final_lab \<and>
           preprocess_underwater_image bgr2lab lab2bgr clahe_apply img = Inr final \<and>
           final = cvtColor lab2bgr final_lab \<and>
           valid_raster H W final"
proof -
  define ic where "ic = map (map spec_compensate_pixel) img"
  define lab where "lab = chromatic_cast_correction (cvtColor bgr2lab ic)"
  have s0: "shape img = replicate H W" and pos: "0 < H" "0 < W"
    using valid by (simp_all add: valid_raster_shape)
  have step1: "red_channel_compensation img = Inr ic"
    by (simp add: ic_def red_channel_compensation_eq)
  have s1: "shape ic = shape img" by (simp add: ic_def shape_map_map)
  have s2: "shape (cvtColor bgr2lab ic) = shape img"
    by (simp add: cvtColor_def shape_map_map s1)
  have s3: "shape lab = shape img"
    unfolding lab_def chromatic_cast_correction_eq by (simp add: shape_map_map s2)
  obtain final_lab where step3: "contrast_enhancement clahe_apply lab = Inr final_lab"
    and s4: "shape final_lab = shape lab"
    using contrast_enhancement_shape [OF clahe_ok, of lab] by blast
  have s5: "shape (cvtColor lab2bgr final_lab) = shape img"
    by (simp add: cvtColor_def shape_map_map s4 s3)
  have run: "preprocess_underwater_image bgr2lab lab2bgr clahe_apply img
               = Inr (cvtColor lab2bgr final_lab)"
    using step1 step3 by (simp add: preprocess_underwater_image_def Let_def lab_def)
  have v1: "valid_raster H W ic" using pos s0 s1 by (simp add: valid_raster_shape)
  have v2: "valid_raster H W (cvtColor bgr2lab ic)" using pos s0 s2 by (simp add: valid_raster_shape)
  have v3: "valid_raster H W lab" using pos s0 s3 by (simp add: valid_raster_shape)
  have v4: "valid_raster H W final_lab" using pos s0 s3 s4 by (simp add: valid_raster_shape)
  have v5: "valid_raster H W (cvtColor lab2bgr final_lab)"
    using pos s0 s5 by (simp add: valid_raster_shape)
  show ?thesis
    apply (rule exI [of _ ic], rule exI [of _ final_lab], rule exI [of _ "cvtColor lab2bgr final_lab"])
    using step1 v1 v2 v3 step3 v4 run v5 unfolding lab_def by (intro conjI refl)
qed

theorem pipeline_preserves_dimensions_witness:
  "valid_raster 1 2 ([[(200, 50, 10), (0, 10, 50)]] :: raster) \<and>
   (\<exists>final. preprocess_underwater_image (\<lambda>p. p) (\<lambda>p. p) (\<lambda>p. p)
               [[(200, 50, 10), (0, 10, 50)]] = Inr final \<and> valid_raster 1 2 final)"
proof -
  let ?img = "[[(200, 50, 10), (0, 10, 50)]] :: raster"
  have v: "valid_raster 1 2 ?img" by (simp add: valid_raster_def)
  have c: "\<And>p :: u8 plane. shape ((\<lambda>p. p) p) = shape p" by simp
  obtain final where "preprocess_underwater_image (\<lambda>p. p) (\<lambda>p. p) (\<lambda>p. p) ?img = Inr final"
    and "valid_raster 1 2 final"
    using pipeline_preserves_dimensions [OF v c, of "\<lambda>p. p" "\<lambda>p. p"] by blast
  then show ?thesis using v by (intro conjI exI [of _ final])
qed

subsection \<open>Gray-world white balance\<close>

text \<open>
  C8. There are input images with a zero-mean channel on which the scale computation
  divides by zero, and nothing guards the division. On the all-black 1 by 1 image every
  quotient is 0/0 = NaN, and NaN is what the three scales become (Python's \<open>min\<close>
  keeps it). On the image with the single pixel (0, 10, 20) the blue quotient is
  10/0 = infinity, which the cap turns into the scale 4.
\<close>

theorem gray_world_divides_by_zero:
  "(\<exists>img. valid_raster 1 1 img \<and> np_mean (channel0 img) = Fin 0 \<and>
          fl_div (avg_gray_of img) (np_mean (channel0 img)) = NaN \<and>
          gray_world_scales img = (NaN, NaN, NaN)) \<and>
   (\<exists>img. valid_raster 1 1 img \<and> np_mean (channel0 img) = Fin 0 \<and>
          fl_div (avg_gray_of img) (np_mean (channel0 img)) = PInf \<and>
          gray_world_scales img = (Fin 4, Fin 1, Fin (1 / 2)))"
proof (intro conjI)
  let ?black = "[[(0, 0, 0)]] :: raster"
  have m: "np_mean (channel0 ?black) = Fin 0" "np_mean (channel1 ?black) = Fin 0"
    "np_mean (channel2 ?black) = Fin 0"
    by (simp_all add: np_mean_def channel0_def channel1_def channel2_def)
  have g: "avg_gray_of ?black = Fin 0" by (simp add: avg_gray_of_def m)
  have "valid_raster 1 1 ?black" by (simp add: valid_raster_def)
  moreover have "fl_div (avg_gray_of ?black) (np_mean (channel0 ?black)) = NaN"
    by (simp add: g m)
  moreover have "gray_world_scales ?black = (NaN, NaN, NaN)"
    by (simp add: gray_world_scales_def g m py_min_def)
  ultimately show "\<exists>img. valid_raster 1 1 img \<and> np_mean (channel0 img) = Fin 0 \<and>
          fl_div (avg_gray_of img) (np_mean (channel0 img)) = NaN \<and>
          gray_world_scales img = (NaN, NaN, NaN)"
    using m(1) by (intro exI [of _ ?black] conjI)
next
  let ?img = "[[(0, 10, 20)]] :: raster"
  have m: "np_mean (channel0 ?img) = Fin 0" "np_mean (channel1 ?img) = Fin 10"
    "np_mean (channel2 ?img) = Fin 20"
    by (simp_all add: np_mean_def channel0_def channel1_def channel2_def)
  have g: "avg_gray_of ?img = Fin 10" by (simp add: avg_gray_of_def m)
  have "valid_raster 1 1 ?img" by (simp add: valid_raster_def)
  moreover have "fl_div (avg_gray_of ?img) (np_mean (channel0 ?img)) = PInf"
    by (simp add: g m signed_inf_def)
  moreover have "gray_world_scales ?img = (Fin 4, Fin 1, Fin (1 / 2))"
    by (simp add: gray_world_scales_def g m py_min_def signed_inf_def)
  ultimately show "\<exists>img. valid_raster 1 1 img \<and> np_mean (channel0 img) = Fin 0 \<and>
          fl_div (avg_gray_of img) (np_mean (channel0 img)) = PInf \<and>
          gray_world_scales img = (Fin 4, Fin 1, Fin (1 / 2))"
    using m(1) by (intro exI [of _ ?img] conjI)
qed

subsection \<open>Statistics of an all-black image\<close>

lemma all_zero_concat:
  "list_all (list_all (\<lambda>v. v = c)) p \<Longrightarrow> concat p = replicate (length (concat p)) c"
proof (induction p)
  case Nil
  then show ?case by simp
next
  case (Cons r p)
  then have "r = replicate (length r) c"
    by (simp add: list_all_iff replicate_length_same)
  moreover have "concat p = replicate (length (concat p)) c" using Cons by simp
  ultimately have "r @ concat p = replicate (length r) c @ replicate (length (concat p)) c"
    by simp
  then show ?case by (simp add: replicate_add)
qed

lemma valid_raster_nonempty: "valid_raster H W p \<Longrightarrow> concat p \<noteq> []"
  by (cases p) (auto simp: valid_raster_def)

lemma fold_min_zeros: "(min (0 :: u8) ^^ k) 0 = 0"
  by (induction k) simp_all

lemma fold_max_zeros: "(max (0 :: u8) ^^ k) 0 = 0"
  by (induction k) simp_all

lemma stats_of_zeros:
  assumes "0 < n" and "concat p = replicate n (0 :: u8)"
  shows "np_mean p = Fin 0" "np_std p = Fin 0" "np_min p = Inr 0" "np_max p = Inr 0"
proof -
  obtain k where n: "n = Suc k" using assms(1) by (cases n) auto
  show "np_mean p = Fin 0" using assms by (simp add: np_mean_def Let_def)
  show "np_std p = Fin 0" using assms by (simp add: np_std_def Let_def sum_list_replicate)
  show "np_min p = Inr 0" using assms(2) by (simp add: np_min_def n fold_min_zeros)
  show "np_max p = Inr 0" using assms(2) by (simp add: np_max_def n fold_max_zeros)
qed

text \<open>
  C10. For every valid image whose grayscale derivative is zero at every pixel, the mean
  of the grayscale plane is 0 and the contrast figure is computed as the standard
  deviation over that mean with no guard: the division is 0/0 and the figure printed
  is NaN.
\<close>

theorem contrast_divides_by_zero_on_black:
  assumes "valid_raster H W img"
    and "list_all (list_all (\<lambda>v. v = 0)) (cvtColor bgr2gray img)"
  shows "np_mean (cvtColor bgr2gray img) = Fin 0 \<and>
         fl_div (np_std (cvtColor bgr2gray img)) (np_mean (cvtColor bgr2gray img)) = NaN \<and>
         get_image_statistics bgr2gray img name
           = (Inr (), [Print (CHR 0x0A # name @ '' Statistics:''), PrintMean (Fin 0),
                       PrintStd (Fin 0), PrintMinMax 0 0, PrintContrast NaN])"
proof -
  let ?gray = "cvtColor bgr2gray img"
  have "valid_raster H W ?gray"
    using assms(1) by (simp add: valid_raster_shape cvtColor_def shape_map_map)
  then have "concat ?gray \<noteq> []" by (rule valid_raster_nonempty)
  then have pos: "0 < length (concat ?gray)" by simp
  have zeros: "concat ?gray = replicate (length (concat ?gray)) 0"
    using assms(2) by (rule all_zero_concat)
  note st = stats_of_zeros [OF pos zeros]
  show ?thesis by (simp add: get_image_statistics_def Let_def st)
qed

theorem contrast_divides_by_zero_on_black_witness:
  "valid_raster 1 2 ([[(0, 0, 0), (0, 0, 0)]] :: raster) \<and>
   list_all (list_all (\<lambda>v. v = 0)) (cvtColor (\<lambda>(b, g, r). g) [[(0, 0, 0), (0, 0, 0)]]) \<and>
   get_image_statistics (\<lambda>(b, g, r). g) [[(0, 0, 0), (0, 0, 0)]] ''Original''
     = (Inr (), [Print (CHR 0x0A # ''Original Statistics:''), PrintMean (Fin 0),
                 PrintStd (Fin 0), PrintMinMax 0 0, PrintContrast NaN])"
proof -
  let ?img = "[[(0, 0, 0), (0, 0, 0)]] :: raster"
  have v: "valid_raster 1 2 ?img" by (simp add: valid_raster_def)
  have z: "list_all (list_all (\<lambda>v. v = 0)) (cvtColor (\<lambda>(b, g, r). g) ?img)"
    by (simp add: cvtColor_def)
  show ?thesis
    using v z contrast_divides_by_zero_on_black [OF v z, of "''Original''"] by simp
qed

subsection \<open>The entry point on an undecodable input\<close>

text \<open>
  C9, as stated, fails: on a path that the decoder cannot read, the entry point does not
  end with the error \<open>InvalidImage\<close> (nor with any other error); it returns normally.
\<close>

theorem undecodable_input_no_error_surfaced:
  "imread no_image_externals ''missing.jpg'' = None \<and>
   fst (process_image no_image_externals ''missing.jpg'' False ''output'') = Inr () \<and>
   fst (process_image no_image_externals ''missing.jpg'' False ''output'') \<noteq> Inl InvalidImage"
  by (simp add: process_image_def no_image_externals_def)

text \<open>
  C9, amended. For every path whose image cannot be decoded, the entry point prints the
  line "Error: Could not load image from <path>" and returns normally, with no error
  reaching the caller; nothing else happens, and in particular the enhancement pipeline
  is not invoked.
\<close>

theorem undecodable_input_returns_quietly:
  assumes "imread ext image_path = None"
  shows "process_image ext image_path save_output output_dir
           = (Inr (), [Print (CHR 0x0A # ''Processing: '' @ image_path),
                       Print (''Error: Could not load image from '' @ image_path)]) \<and>
         \<not> core_invoked (snd (process_image ext image_path save_output output_dir))"
  using assms by (simp add: process_image_def core_invoked_def)

theorem undecodable_input_returns_quietly_witness:
  "imread no_image_externals ''missing.jpg'' = None \<and>
   process_image no_image_externals ''missing.jpg'' False ''output''
     = (Inr (), [Print (CHR 0x0A # ''Processing: missing.jpg''),
                 Print ''Error: Could not load image from missing.jpg'']) \<and>
   \<not> core_invoked (snd (process_image no_image_externals ''missing.jpg'' False ''output''))"
proof -
  have n: "imread no_image_externals ''missing.jpg'' = None"
    by (simp add: no_image_externals_def)
  show ?thesis
    using n undecodable_input_returns_quietly [OF n, of False "''output''"]
    by (simp add: core_invoked_def)
qed

text \<open>
  On a decodable input whose statistics can be computed, the pipeline is invoked: the
  guard is what keeps it from running on an undecodable one.
\<close>

lemma decodable_input_reaches_core:
  assumes "imread ext image_path = Some original"
    and "fst (get_image_statistics (ext_bgr2gray ext) original ''Original'') = Inr ()"
  shows "core_invoked (snd (process_image ext image_path save_output output_dir))"
  using assms
  by (auto simp: process_image_def core_invoked_def Let_def split: prod.splits sum.splits)

end
